theory Spec2Isabelle
  imports Main "HOL-Library.Sublist"
begin

section \<open>Python values\<close>

text \<open>
  Exceptions are values. A function of the program that can raise returns
  \<open>error + 'a\<close>, with \<open>Inl\<close> for the exception. \<open>OtherError\<close> stands for whatever a
  collaborator outside \<^verbatim>\<open>features/tabular.py\<close> raises.
\<close>

datatype error =
    AssertionError string
  | IndexError string
  | ValueError string
  | OtherError string

text \<open>
  A Python list is an object: it has an identity besides its items. The operator
  \<^verbatim>\<open>is not\<close> compares identities only, \<^verbatim>\<open>append\<close> changes the items and keeps
  the identity, and a list display \<^verbatim>\<open>[]\<close> creates an object with an identity that no
  live object has. Identities are handed out from a counter.
\<close>

record 'a pylist =
  ident :: nat
  items :: "'a list"

definition new_list :: "nat \<Rightarrow> 'a pylist" where
  "new_list fresh = \<lparr>ident = fresh, items = []\<rparr>"

definition py_append :: "'a pylist \<Rightarrow> 'a \<Rightarrow> 'a pylist" where
  "py_append l x = l\<lparr>items := items l @ [x]\<rparr>"

definition py_is_not :: "'a pylist \<Rightarrow> 'a pylist \<Rightarrow> bool" where
  "py_is_not a b = (ident a \<noteq> ident b)"

text \<open>
  An optional argument is \<open>None\<close> or an object. \<^verbatim>\<open>if x:\<close> asks for the truth value
  of \<open>x\<close>: false for \<open>None\<close>, and for an object whatever its class answers
  (\<open>truthy\<close>; a module class that defines neither \<^verbatim>\<open>__bool__\<close> nor \<^verbatim>\<open>__len__\<close>
  answers true for every instance).
\<close>

definition py_truth :: "('m \<Rightarrow> bool) \<Rightarrow> 'm option \<Rightarrow> bool" where
  "py_truth truthy x = (case x of None \<Rightarrow> False | Some m \<Rightarrow> truthy m)"

text \<open>
  The tag selectors of \<^verbatim>\<open>from_column_group\<close>: \<open>None\<close>, one member of the \<^verbatim>\<open>Tag\<close>
  enumeration (always true as a condition), or a list of tags (true when it is not
  empty).
\<close>

datatype 't tags = NoTags | OneTag 't | TagList "'t list"

fun tags_truth :: "'t tags \<Rightarrow> bool" where
  "tags_truth NoTags = False"
| "tags_truth (OneTag t) = True"
| "tags_truth (TagList ts) = (ts \<noteq> [])"

text \<open>
  \<^verbatim>\<open>sub in s\<close> on strings.
\<close>

fun str_contains :: "string \<Rightarrow> string \<Rightarrow> bool" where
  "str_contains sub [] = (sub = [])"
| "str_contains sub (c # cs) = (prefix sub (c # cs) \<or> str_contains sub cs)"

text \<open>
  A \<^verbatim>\<open>dict\<close> keeps its keys in insertion order: a list of pairs with distinct keys.
  \<^verbatim>\<open>d[k] = v\<close> replaces the value of a key that is there, in its place, and puts a
  new key at the end; \<^verbatim>\<open>d.update(other)\<close> does so for every item of \<open>other\<close>, in
  order.
\<close>

type_synonym ('k, 'v) dict = "('k \<times> 'v) list"

fun dict_setitem :: "'k \<Rightarrow> 'v \<Rightarrow> ('k, 'v) dict \<Rightarrow> ('k, 'v) dict" where
  "dict_setitem k v [] = [(k, v)]"
| "dict_setitem k v ((k', v') # d) =
     (if k' = k then (k', v) # d else (k', v') # dict_setitem k v d)"

definition dict_update :: "('k, 'v) dict \<Rightarrow> ('k, 'v) dict \<Rightarrow> ('k, 'v) dict" where
  "dict_update d other = fold (\<lambda>(k, v). dict_setitem k v) other d"

definition dict_keys :: "('k, 'v) dict \<Rightarrow> 'k list" where
  "dict_keys d = map fst d"

definition dict_get :: "('k, 'v) dict \<Rightarrow> 'k \<Rightarrow> 'v option" where
  "dict_get d k = map_of d k"

section \<open>\<^verbatim>\<open>TabularFeatures\<close> (\<^verbatim>\<open>merlin_models/torch/features/tabular.py\<close>)\<close>

text \<open>
  The instance attributes. \<open>aggregation\<close> is what the superclass's
  \<^verbatim>\<open>set_aggregation\<close> stores; that method is not among the sources and is a
  parameter of the constructor below.
\<close>

record ('m, 'g) tabular_features =
  categorical_module :: "'m option"
  continuous_module :: "'m option"
  text_embedding_module :: "'m option"
  to_apply :: "'m pylist"
  aggregation :: 'g

text \<open>
  \<^verbatim>\<open>if module: self.to_apply.append(module)\<close>, written three times in \<^verbatim>\<open>__init__\<close>.
\<close>

definition append_if :: "('m \<Rightarrow> bool) \<Rightarrow> 'm option \<Rightarrow> 'm pylist \<Rightarrow> 'm pylist" where
  "append_if truthy x l =
     (case x of
        None \<Rightarrow> l
      | Some m \<Rightarrow> if py_truth truthy x then py_append l m else l)"

text \<open>
  \<^verbatim>\<open>TabularFeatures.__init__\<close>. \<open>fresh\<close> is the first unused object identity: the
  list bound to \<^verbatim>\<open>self.to_apply\<close> takes it, and the list display in the
  \<^verbatim>\<open>assert\<close> takes the next one.
\<close>

definition TabularFeatures_init ::
  "('m \<Rightarrow> bool) \<Rightarrow> ('a \<Rightarrow> 'g) \<Rightarrow> 'm option \<Rightarrow> 'm option \<Rightarrow> 'm option \<Rightarrow> 'a \<Rightarrow> nat
     \<Rightarrow> error + ('m, 'g) tabular_features" where
  "TabularFeatures_init truthy set_aggregation cont_module cat_module text_module agg fresh =
     (let l0 = new_list fresh;
          l1 = append_if truthy cont_module l0;
          l2 = append_if truthy cat_module l1;
          l3 = append_if truthy text_module l2;
          empty_display = new_list (Suc fresh)
      in if py_is_not l3 empty_display
         then Inr \<lparr>categorical_module = cat_module, continuous_module = cont_module,
                   text_embedding_module = text_module, to_apply = l3,
                   aggregation = set_aggregation agg\<rparr>
         else Inl (AssertionError ''Please provide at least one input layer''))"

text \<open>
  \<^verbatim>\<open>TabularFeatures.forward\<close>. \<open>call m inputs merge_with\<close> is the sub-module's
  \<^verbatim>\<open>__call__\<close> (inherited from \<^verbatim>\<open>TabularModule\<close>, not among the sources).
  \<^verbatim>\<open>self.to_apply[0]\<close> is evaluated before the arguments and raises on an empty
  list. The keyword arguments of \<^verbatim>\<open>forward\<close> are not used.
\<close>

definition forward ::
  "('m \<Rightarrow> 'i \<Rightarrow> 'm list option \<Rightarrow> error + 'o) \<Rightarrow> ('m, 'g) tabular_features \<Rightarrow> 'i \<Rightarrow> 'kw
     \<Rightarrow> error + 'o" where
  "forward call self inputs kwargs =
     (case items (to_apply self) of
        [] \<Rightarrow> Inl (IndexError ''list index out of range'')
      | m # _ \<Rightarrow>
          call m inputs
            (if length (items (to_apply self)) > 1
             then Some (drop 1 (items (to_apply self))) else None))"

text \<open>
  \<^verbatim>\<open>TabularFeatures.from_column_group\<close>. The two factories
  \<^verbatim>\<open>ContinuousFeatures.from_column_group\<close> and \<^verbatim>\<open>EmbeddingFeatures.from_column_group\<close>
  are parameters; each may raise, and may return \<open>None\<close>. The text selectors, the
  text length and the remaining keyword arguments occur only in the commented-out
  block of the source.
\<close>

definition from_column_group ::
  "('m \<Rightarrow> bool) \<Rightarrow> ('a \<Rightarrow> 'g)
     \<Rightarrow> ('cg \<Rightarrow> 't tags \<Rightarrow> 't tags \<Rightarrow> error + 'm option)
     \<Rightarrow> ('cg \<Rightarrow> 't tags \<Rightarrow> 't tags \<Rightarrow> error + 'm option)
     \<Rightarrow> 'cg \<Rightarrow> 't tags \<Rightarrow> 't tags \<Rightarrow> 't tags \<Rightarrow> 't tags \<Rightarrow> 'm option
     \<Rightarrow> 't tags \<Rightarrow> 't tags \<Rightarrow> nat option \<Rightarrow> 'a \<Rightarrow> 'kw \<Rightarrow> nat
     \<Rightarrow> error + ('m, 'g) tabular_features" where
  "from_column_group truthy set_aggregation continuous_from_column_group
       embedding_from_column_group column_group continuous_tags continuous_tags_to_filter
       categorical_tags categorical_tags_to_filter text_model text_tags text_tags_to_filter
       max_text_length agg kwargs fresh =
     (case (if tags_truth continuous_tags
            then continuous_from_column_group column_group continuous_tags
                   continuous_tags_to_filter
            else Inr None) of
        Inl e \<Rightarrow> Inl e
      | Inr maybe_continuous_module \<Rightarrow>
          (case (if tags_truth categorical_tags
                 then embedding_from_column_group column_group categorical_tags
                        categorical_tags_to_filter
                 else Inr None) of
             Inl e \<Rightarrow> Inl e
           | Inr maybe_categorical_module \<Rightarrow>
               TabularFeatures_init truthy set_aggregation maybe_continuous_module
                 maybe_categorical_module text_model agg fresh))"

text \<open>
  \<^verbatim>\<open>TabularFeatures.forward_output_size\<close>. The loop over \<^verbatim>\<open>self.to_apply\<close> is
  \<open>update_sizes\<close>; \<open>sub_size m input_size\<close> is the sub-module's own
  \<^verbatim>\<open>forward_output_size\<close> and \<open>super_size self sizes\<close> the superclass's, both
  parameters.
\<close>

fun update_sizes ::
  "('m \<Rightarrow> 's \<Rightarrow> error + ('k, 'v) dict) \<Rightarrow> 's \<Rightarrow> 'm list \<Rightarrow> ('k, 'v) dict
     \<Rightarrow> error + ('k, 'v) dict" where
  "update_sizes sub_size input_size [] output_sizes = Inr output_sizes"
| "update_sizes sub_size input_size (in_layer # rest) output_sizes =
     (case sub_size in_layer input_size of
        Inl e \<Rightarrow> Inl e
      | Inr sizes \<Rightarrow> update_sizes sub_size input_size rest (dict_update output_sizes sizes))"

definition forward_output_size ::
  "('m \<Rightarrow> 's \<Rightarrow> error + ('k, 'v) dict)
     \<Rightarrow> (('m, 'g) tabular_features \<Rightarrow> ('k, 'v) dict \<Rightarrow> error + 'r)
     \<Rightarrow> ('m, 'g) tabular_features \<Rightarrow> 's \<Rightarrow> error + 'r" where
  "forward_output_size sub_size super_size self input_size =
     (case update_sizes sub_size input_size (items (to_apply self)) [] of
        Inl e \<Rightarrow> Inl e
      | Inr output_sizes \<Rightarrow> super_size self output_sizes)"

text \<open>
  The sub-modules an instance is configured with, as the specification counts them:
  the continuous, the categorical and the text module, in this order, leaving out
  the ones that are absent or false as a condition.
\<close>

definition configured ::
  "('m \<Rightarrow> bool) \<Rightarrow> 'm option \<Rightarrow> 'm option \<Rightarrow> 'm option \<Rightarrow> 'm list" where
  "configured truthy cont_module cat_module text_module =
     filter truthy
       (concat (map (\<lambda>x. case x of None \<Rightarrow> [] | Some m \<Rightarrow> [m])
          [cont_module, cat_module, text_module]))"

text \<open>
  The union of a sequence of size mappings, as the specification has it, by what it
  answers for a feature name: the size given by the last mapping of the sequence
  that has the name.
\<close>

fun union_get :: "('k, 'v) dict list \<Rightarrow> 'k \<Rightarrow> 'v option" where
  "union_get [] k = None"
| "union_get (d # ds) k =
     (case union_get ds k of Some v \<Rightarrow> Some v | None \<Rightarrow> dict_get d k)"

section \<open>Embedding tables and soft embeddings\<close>

text \<open>
  \<^verbatim>\<open>features/embedding.py\<close> is not among the sources; its tests are
  (\<^verbatim>\<open>tests/unit/torch/features/test_embedding.py\<close>). The definitions of this section
  follow the specification. Weights are of an arbitrary type \<open>'w\<close>: only the shapes
  of tensors and the positions the values come from are modelled.
\<close>

text \<open>
  Modelled from the spec: a tensor, as its shape and its values in row-major order.
\<close>

record 'a tensor =
  shape :: "nat list"
  data :: "'a list"

text \<open>
  Modelled from the spec: the argument \<^verbatim>\<open>initializer\<close> of \<^verbatim>\<open>TableConfig\<close>, which is
  left out, a callable, or some other value (a string in the test).
\<close>

datatype ('f, 'x) initializer_arg = Unspecified | Callable 'f | NotCallable 'x

text \<open>
  Modelled from the spec: the data of \<^verbatim>\<open>TableConfig\<close> (section 3: capacity,
  dimension, initializer, combiner, name) and of \<^verbatim>\<open>FeatureConfig\<close> (table, maximal
  sequence length).
\<close>

record 'f table_config =
  capacity :: nat
  dimension :: nat
  initializer :: "'f option"
  combiner :: "string option"
  name :: "string option"

record 'f feature_config =
  table :: "'f table_config"
  max_sequence_length :: "nat option"

text \<open>
  Modelled from the spec: the constructor of \<^verbatim>\<open>TableConfig\<close> (section 4.1). The only
  check is that an initializer, if supplied, is callable.
\<close>

definition TableConfig_init ::
  "nat \<Rightarrow> nat \<Rightarrow> ('f, 'x) initializer_arg \<Rightarrow> string option \<Rightarrow> string option
     \<Rightarrow> error + 'f table_config" where
  "TableConfig_init vocabulary_size dim init comb nm =
     (case init of
        NotCallable x \<Rightarrow> Inl (ValueError ''initializer must be callable if specified'')
      | Callable f \<Rightarrow>
          Inr \<lparr>capacity = vocabulary_size, dimension = dim, initializer = Some f,
               combiner = comb, name = nm\<rparr>
      | Unspecified \<Rightarrow>
          Inr \<lparr>capacity = vocabulary_size, dimension = dim, initializer = None,
               combiner = comb, name = nm\<rparr>)"

text \<open>
  Modelled from the spec: an allocated embedding table, a weight matrix of
  \<open>rows\<close> by \<open>cols\<close> values. \<open>fill r c\<close> is the value the initializer leaves at row
  \<open>r\<close>, column \<open>c\<close>.
\<close>

record 'w embedding =
  rows :: nat
  cols :: nat
  weight :: "'w list list"

definition allocate :: "nat \<Rightarrow> nat \<Rightarrow> (nat \<Rightarrow> nat \<Rightarrow> 'w) \<Rightarrow> 'w embedding" where
  "allocate n d fill =
     \<lparr>rows = n, cols = d, weight = map (\<lambda>r. map (fill r) [0..<d]) [0..<n]\<rparr>"

text \<open>
  Modelled from the spec: the constructor of \<^verbatim>\<open>SoftEmbedding\<close> (section 4.3). Both
  sizes must be strictly positive; the two messages are the ones the tests look for.
\<close>

record 'w soft_embedding =
  embedding_table :: "'w embedding"

definition SoftEmbedding_init ::
  "(nat \<Rightarrow> nat \<Rightarrow> 'w) \<Rightarrow> int \<Rightarrow> int \<Rightarrow> error + 'w soft_embedding" where
  "SoftEmbedding_init emb_initializer num_embeddings embeddings_dim =
     (if \<not> 0 < num_embeddings
      then Inl (AssertionError
             ''number of embeddings for soft embeddings needs to be greater than 0'')
      else if \<not> 0 < embeddings_dim
      then Inl (AssertionError
             ''embeddings dim for soft embeddings needs to be greater than 0'')
      else Inr \<lparr>embedding_table =
             allocate (nat num_embeddings) (nat embeddings_dim) emb_initializer\<rparr>)"

text \<open>
  Modelled from the spec: when two table configurations are the same table
  (sections 3 and 4.1): they share a name, or, for a table without a name, they are
  the same configuration.
\<close>

definition same_table :: "'f table_config \<Rightarrow> 'f table_config \<Rightarrow> bool" where
  "same_table t1 t2 = (case name t1 of Some n \<Rightarrow> name t2 = Some n | None \<Rightarrow> t1 = t2)"

text \<open>
  Modelled from the spec: the state of \<^verbatim>\<open>EmbeddingFeatures\<close> (section 3): the
  feature configuration, the registry of allocated tables, the item identifier and
  the optional transform applied to the output.
\<close>

record ('f, 'w) embedding_features =
  feature_configs :: "(string, 'f feature_config) dict"
  embedding_tables :: "('f table_config \<times> 'w embedding) list"
  item_id :: "string option"
  post :: "((string, 'w tensor) dict \<Rightarrow> error + (string, 'w tensor) dict) option"

fun find_table ::
  "('f table_config \<times> 'w embedding) list \<Rightarrow> 'f table_config \<Rightarrow> 'w embedding option" where
  "find_table [] tc = None"
| "find_table ((tc', e) # tables) tc =
     (if same_table tc' tc then Some e else find_table tables tc)"

text \<open>
  Modelled from the spec: the constructor of \<^verbatim>\<open>EmbeddingFeatures\<close> (section 4.2):
  one table of shape (capacity, dimension) for each distinct table that a feature
  refers to, in the order of the configuration. \<open>fill\<close> is what the table's
  initializer (or the default one) writes.
\<close>

fun allocate_tables ::
  "('f option \<Rightarrow> nat \<Rightarrow> nat \<Rightarrow> 'w) \<Rightarrow> 'f feature_config list
     \<Rightarrow> ('f table_config \<times> 'w embedding) list \<Rightarrow> ('f table_config \<times> 'w embedding) list" where
  "allocate_tables fill [] tables = tables"
| "allocate_tables fill (fc # fcs) tables =
     (case find_table tables (table fc) of
        Some e \<Rightarrow> allocate_tables fill fcs tables
      | None \<Rightarrow>
          allocate_tables fill fcs
            (tables @ [(table fc,
               allocate (capacity (table fc)) (dimension (table fc))
                 (fill (initializer (table fc))))]))"

definition EmbeddingFeatures_init ::
  "('f option \<Rightarrow> nat \<Rightarrow> nat \<Rightarrow> 'w) \<Rightarrow> (string, 'f feature_config) dict \<Rightarrow> string option
     \<Rightarrow> ((string, 'w tensor) dict \<Rightarrow> error + (string, 'w tensor) dict) option
     \<Rightarrow> ('f, 'w) embedding_features" where
  "EmbeddingFeatures_init fill feature_config item post_transform =
     \<lparr>feature_configs = feature_config,
      embedding_tables = allocate_tables fill (map snd feature_config) [],
      item_id = item,
      post = post_transform\<rparr>"

text \<open>
  Modelled from the spec: one embedding lookup (section 4.2 and section 6): every
  index selects a row of the table, so the result has the shape of the index tensor
  with the table's dimension appended. An index outside \<open>[0, capacity)\<close> is an error
  of the tensor engine.
\<close>

definition embedding_lookup :: "'w embedding \<Rightarrow> int tensor \<Rightarrow> error + 'w tensor" where
  "embedding_lookup e t =
     (if list_all (\<lambda>i. 0 \<le> i \<and> i < int (rows e)) (data t)
      then Inr \<lparr>shape = shape t @ [cols e],
                data = concat (map (\<lambda>i. weight e ! nat i) (data t))\<rparr>
      else Inl (IndexError ''index out of range in self''))"

text \<open>
  Modelled from the spec: the forward pass of \<^verbatim>\<open>EmbeddingFeatures\<close> (section 4.2):
  for each feature of the configuration, in the order of the configuration, that
  the input mapping has, a lookup against its table; \<open>post\<close>, if configured, is
  applied to the whole output mapping.
\<close>

fun embed_features ::
  "('f table_config \<times> 'w embedding) list \<Rightarrow> (string, 'f feature_config) dict
     \<Rightarrow> (string, int tensor) dict \<Rightarrow> error + (string, 'w tensor) dict" where
  "embed_features tables [] inputs = Inr []"
| "embed_features tables ((fname, fc) # rest) inputs =
     (case dict_get inputs fname of
        None \<Rightarrow> embed_features tables rest inputs
      | Some t \<Rightarrow>
          (case find_table tables (table fc) of
             None \<Rightarrow> Inl (OtherError fname)
           | Some e \<Rightarrow>
               (case embedding_lookup e t of
                  Inl err \<Rightarrow> Inl err
                | Inr v \<Rightarrow>
                    (case embed_features tables rest inputs of
                       Inl err \<Rightarrow> Inl err
                     | Inr out \<Rightarrow> Inr ((fname, v) # out)))))"

definition EmbeddingFeatures_forward ::
  "('f, 'w) embedding_features \<Rightarrow> (string, int tensor) dict
     \<Rightarrow> error + (string, 'w tensor) dict" where
  "EmbeddingFeatures_forward self inputs =
     (case embed_features (embedding_tables self) (feature_configs self) inputs of
        Inl err \<Rightarrow> Inl err
      | Inr out \<Rightarrow> (case post self of None \<Rightarrow> Inr out | Some p \<Rightarrow> p out))"

text \<open>
  A feature configuration is consistent when configurations that are the same table
  agree on capacity and dimension, and an input mapping is valid for it when the
  indices of every configured feature lie in \<open>[0, capacity)\<close>.
\<close>

definition consistent :: "(string, 'f feature_config) dict \<Rightarrow> bool" where
  "consistent feature_config =
     list_all (\<lambda>a. list_all (\<lambda>b.
         \<not> same_table (table (snd a)) (table (snd b))
         \<or> (capacity (table (snd a)) = capacity (table (snd b))
            \<and> dimension (table (snd a)) = dimension (table (snd b))))
       feature_config) feature_config"

definition valid_indices ::
  "(string, 'f feature_config) dict \<Rightarrow> (string, int tensor) dict \<Rightarrow> bool" where
  "valid_indices feature_config inputs =
     list_all (\<lambda>(fname, fc).
         case dict_get inputs fname of
           None \<Rightarrow> True
         | Some t \<Rightarrow> list_all (\<lambda>i. 0 \<le> i \<and> i < int (capacity (table fc))) (data t))
       feature_config"

section \<open>Facts about the constructor and about dictionaries\<close>

text \<open>
  The constructor returns for every combination of arguments, and the list it
  stores is the list of configured sub-modules.
\<close>

lemma init_total:
  "TabularFeatures_init truthy sa cont_module cat_module text_module agg fresh =
     Inr \<lparr>categorical_module = cat_module, continuous_module = cont_module,
          text_embedding_module = text_module,
          to_apply = \<lparr>ident = fresh, items = configured truthy cont_module cat_module text_module\<rparr>,
          aggregation = sa agg\<rparr>"
  by (simp add: TabularFeatures_init_def Let_def new_list_def append_if_def py_append_def
      py_is_not_def py_truth_def configured_def split: option.splits)

lemma map_of_dict_setitem:
  "map_of (dict_setitem k v d) x = (if x = k then Some v else map_of d x)"
  by (induction d) auto

lemma keys_dict_setitem_old:
  "k \<in> fst ` set d \<Longrightarrow> map fst (dict_setitem k v d) = map fst d"
  by (induction d) force+

lemma keys_dict_setitem_new:
  "k \<notin> fst ` set d \<Longrightarrow> map fst (dict_setitem k v d) = map fst d @ [k]"
  by (induction d) auto

lemma keys_dict_setitem:
  "map fst (dict_setitem k v d) = (if k \<in> fst ` set d then map fst d else map fst d @ [k])"
  by (simp add: keys_dict_setitem_old keys_dict_setitem_new)

lemma distinct_dict_setitem:
  "distinct (map fst d) \<Longrightarrow> distinct (map fst (dict_setitem k v d))"
  by (simp add: keys_dict_setitem)

lemma set_keys_dict_setitem:
  "set (map fst (dict_setitem k v d)) = insert k (set (map fst d))"
  by (auto simp: keys_dict_setitem)

lemma fold_setitem_map_of:
  "distinct (map fst other) \<Longrightarrow>
   map_of (fold (\<lambda>(k, v). dict_setitem k v) other d) x
     = (case map_of other x of None \<Rightarrow> map_of d x | Some v \<Rightarrow> Some v)"
proof (induction other arbitrary: d)
  case Nil
  then show ?case by simp
next
  case (Cons p other)
  obtain k v where p: "p = (k, v)" by (cases p)
  from Cons.prems p have notin: "k \<notin> fst ` set other" and dist: "distinct (map fst other)"
    by auto
  from notin have none: "map_of other k = None"
    by (simp add: map_of_eq_None_iff)
  show ?case
    using Cons.IH [OF dist, of "dict_setitem k v d"] none p
    by (simp add: map_of_dict_setitem split: option.splits)
qed

lemma dict_get_dict_update:
  "distinct (dict_keys other) \<Longrightarrow>
   dict_get (dict_update d other) x
     = (case dict_get other x of None \<Rightarrow> dict_get d x | Some v \<Rightarrow> Some v)"
  unfolding dict_update_def dict_keys_def dict_get_def by (rule fold_setitem_map_of)

lemma distinct_dict_update:
  "distinct (dict_keys d) \<Longrightarrow> distinct (dict_keys (dict_update d other))"
  unfolding dict_update_def dict_keys_def
  by (induction other arbitrary: d) (auto simp: distinct_dict_setitem)

lemma set_keys_dict_update:
  "set (dict_keys (dict_update d other)) = set (dict_keys d) \<union> set (dict_keys other)"
  unfolding dict_update_def dict_keys_def
proof (induction other arbitrary: d)
  case Nil
  then show ?case by simp
next
  case (Cons p other)
  obtain k v where p: "p = (k, v)" by (cases p)
  show ?case
    using Cons.IH [of "dict_setitem k v d"] p set_keys_dict_setitem [of k v d]
    by auto
qed

lemma dict_get_None_iff: "dict_get d k \<noteq> None \<longleftrightarrow> k \<in> set (dict_keys d)"
  by (simp add: dict_get_def dict_keys_def map_of_eq_None_iff)

text \<open>
  The loop of \<^verbatim>\<open>forward_output_size\<close>, when every sub-module answers: the empty
  dictionary updated with each answer in turn.
\<close>

lemma update_sizes_ok:
  "list_all (\<lambda>m. sub_size m s = Inr (sizes m)) ms \<Longrightarrow>
   update_sizes sub_size s ms acc = Inr (foldl dict_update acc (map sizes ms))"
  by (induction ms arbitrary: acc) auto

lemma dict_get_foldl_update:
  "list_all (\<lambda>d. distinct (dict_keys d)) ds \<Longrightarrow>
   dict_get (foldl dict_update acc ds) k
     = (case union_get ds k of Some v \<Rightarrow> Some v | None \<Rightarrow> dict_get acc k)"
proof (induction ds arbitrary: acc)
  case Nil
  then show ?case by simp
next
  case (Cons d ds)
  then have d: "distinct (dict_keys d)" and ds: "list_all (\<lambda>d. distinct (dict_keys d)) ds"
    by auto
  show ?case
    using Cons.IH [OF ds, of "dict_update acc d"] dict_get_dict_update [OF d, of acc k]
    by (simp split: option.splits)
qed

lemma set_keys_foldl_update:
  "set (dict_keys (foldl dict_update acc ds))
     = set (dict_keys acc) \<union> (\<Union>d \<in> set ds. set (dict_keys d))"
  by (induction ds arbitrary: acc) (auto simp: set_keys_dict_update)

lemma distinct_foldl_update:
  "distinct (dict_keys acc) \<Longrightarrow> distinct (dict_keys (foldl dict_update acc ds))"
  by (induction ds arbitrary: acc) (auto simp: distinct_dict_update)

lemma union_get_last:
  "dict_get d k = Some v \<Longrightarrow> list_all (\<lambda>p. dict_get p k = None) ds \<Longrightarrow>
   union_get (pre @ d # ds) k = Some v"
proof (induction pre)
  case Nil
  from Nil(2) have "union_get ds k = None" by (induction ds) auto
  with Nil(1) show ?case by simp
next
  case (Cons a pre)
  then show ?case by simp
qed

section \<open>Facts about the table registry\<close>

lemma same_table_refl: "same_table tc tc"
  by (simp add: same_table_def split: option.splits)

lemma find_table_append:
  "find_table tables tc = Some e \<Longrightarrow> find_table (tables @ extra) tc = Some e"
  by (induction tables) (auto split: if_splits)

lemma find_table_append_new:
  "find_table tables tc = None \<Longrightarrow> find_table (tables @ [(tc, e)]) tc = Some e"
  by (induction tables) (auto simp: same_table_refl split: if_splits)

lemma find_table_in:
  "find_table tables tc = Some e \<Longrightarrow> \<exists>tc'. (tc', e) \<in> set tables \<and> same_table tc' tc"
  by (induction tables) (auto split: if_splits)

lemma allocate_tables_keeps:
  "find_table tables tc = Some e \<Longrightarrow> find_table (allocate_tables fill fcs tables) tc = Some e"
  by (induction fcs arbitrary: tables) (auto simp: find_table_append split: option.splits)

text \<open>Every feature of the configuration finds a table in the registry.\<close>

lemma allocate_tables_finds:
  "fc \<in> set fcs \<Longrightarrow> \<exists>e. find_table (allocate_tables fill fcs tables) (table fc) = Some e"
proof (induction fcs arbitrary: tables)
  case Nil
  then show ?case by simp
next
  case (Cons a fcs)
  show ?case
  proof (cases "fc = a")
    case True
    show ?thesis
    proof (cases "find_table tables (table a)")
      case None
      then show ?thesis
        using True by (simp add: allocate_tables_keeps find_table_append_new)
    next
      case (Some e)
      then show ?thesis
        using True by (simp add: allocate_tables_keeps)
    qed
  next
    case False
    with Cons.prems have "fc \<in> set fcs" by simp
    then show ?thesis
      using Cons.IH by (simp split: option.splits)
  qed
qed

text \<open>
  Every table of the registry belongs to a configuration and has the shape that
  configuration asks for.
\<close>

lemma allocate_tables_shaped:
  assumes "\<forall>(tc, e) \<in> set tables. tc \<in> T \<and> rows e = capacity tc \<and> cols e = dimension tc"
      and "table ` set fcs \<subseteq> T"
  shows "\<forall>(tc, e) \<in> set (allocate_tables fill fcs tables).
           tc \<in> T \<and> rows e = capacity tc \<and> cols e = dimension tc"
  using assms
proof (induction fcs arbitrary: tables)
  case Nil
  then show ?case by simp
next
  case (Cons a fcs)
  from Cons.prems have a: "table a \<in> T" and rest: "table ` set fcs \<subseteq> T" by auto
  let ?new = "tables @ [(table a,
          allocate (capacity (table a)) (dimension (table a)) (fill (initializer (table a))))]"
  have new: "\<forall>(tc, e) \<in> set ?new. tc \<in> T \<and> rows e = capacity tc \<and> cols e = dimension tc"
    using Cons.prems(1) a by (auto simp: allocate_def)
  show ?case
  proof (cases "find_table tables (table a)")
    case None
    then have "allocate_tables fill (a # fcs) tables = allocate_tables fill fcs ?new"
      by simp
    then show ?thesis
      using Cons.IH [OF new rest] by simp
  next
    case (Some e)
    then have "allocate_tables fill (a # fcs) tables = allocate_tables fill fcs tables"
      by simp
    then show ?thesis
      using Cons.IH [OF Cons.prems(1) rest] by simp
  qed
qed

lemma consistentD:
  "consistent fcs \<Longrightarrow> a \<in> set fcs \<Longrightarrow> b \<in> set fcs
   \<Longrightarrow> same_table (table (snd a)) (table (snd b))
   \<Longrightarrow> capacity (table (snd a)) = capacity (table (snd b))
       \<and> dimension (table (snd a)) = dimension (table (snd b))"
  by (auto simp: consistent_def list_all_iff)

lemma registered_table:
  assumes cons: "consistent fcs" and mem: "(f, cfg) \<in> set fcs"
  shows "\<exists>e. find_table (allocate_tables fill (map snd fcs) []) (table cfg) = Some e
            \<and> rows e = capacity (table cfg) \<and> cols e = dimension (table cfg)"
proof -
  let ?tables = "allocate_tables fill (map snd fcs) []"
  from mem have "cfg \<in> set (map snd fcs)" by force
  from allocate_tables_finds [OF this] obtain e
    where e: "find_table ?tables (table cfg) = Some e" by blast
  from find_table_in [OF e] obtain tc'
    where in_t: "(tc', e) \<in> set ?tables" and same: "same_table tc' (table cfg)" by blast
  have "\<forall>(tc, e) \<in> set ?tables.
          tc \<in> table ` set (map snd fcs) \<and> rows e = capacity tc \<and> cols e = dimension tc"
    by (rule allocate_tables_shaped) simp_all
  with in_t have tc': "tc' \<in> table ` set (map snd fcs)"
    and sh: "rows e = capacity tc'" "cols e = dimension tc'"
    by auto
  from tc' obtain b where b: "b \<in> set fcs" "tc' = table (snd b)" by auto
  from consistentD [OF cons b(1) mem] same b(2)
  have "capacity tc' = capacity (table cfg)" "dimension tc' = dimension (table cfg)"
    by simp_all
  with e sh show ?thesis by simp
qed

lemma embedding_lookup_ok:
  "list_all (\<lambda>i. 0 \<le> i \<and> i < int (rows e)) (data t) \<Longrightarrow>
   \<exists>v. embedding_lookup e t = Inr v \<and> shape v = shape t @ [cols e]"
  by (simp add: embedding_lookup_def)

text \<open>
  The loop of the forward pass over a configuration whose features all have a table
  of the configured shape.
\<close>

lemma embed_features_ok:
  assumes "\<forall>(f, cfg) \<in> set fcs. \<exists>e. find_table tables (table cfg) = Some e
              \<and> rows e = capacity (table cfg) \<and> cols e = dimension (table cfg)"
      and "valid_indices fcs inputs"
  shows "\<exists>out. embed_features tables fcs inputs = Inr out
           \<and> dict_keys out = filter (\<lambda>k. dict_get inputs k \<noteq> None) (dict_keys fcs)
           \<and> (\<forall>k v. dict_get out k = Some v \<longrightarrow>
                 (\<exists>t cfg. dict_get inputs k = Some t \<and> dict_get fcs k = Some cfg
                     \<and> shape v = shape t @ [dimension (table cfg)]))"
  using assms
proof (induction fcs)
  case Nil
  then show ?case by (simp add: dict_keys_def dict_get_def)
next
  case (Cons p fcs)
  obtain f cfg where p: "p = (f, cfg)" by (cases p)
  from Cons.prems have tabs: "\<forall>(f, cfg) \<in> set fcs. \<exists>e. find_table tables (table cfg) = Some e
              \<and> rows e = capacity (table cfg) \<and> cols e = dimension (table cfg)"
    and valid: "valid_indices fcs inputs"
    by (auto simp: valid_indices_def)
  from Cons.IH [OF tabs valid] obtain out
    where out: "embed_features tables fcs inputs = Inr out"
      and keys: "dict_keys out = filter (\<lambda>k. dict_get inputs k \<noteq> None) (dict_keys fcs)"
      and shapes: "\<forall>k v. dict_get out k = Some v \<longrightarrow>
                 (\<exists>t cfg. dict_get inputs k = Some t \<and> dict_get fcs k = Some cfg
                     \<and> shape v = shape t @ [dimension (table cfg)])"
    by blast
  show ?case
  proof (cases "dict_get inputs f")
    case None
    have nf: "dict_get out k = Some v \<Longrightarrow> k \<noteq> f" for k v
    proof
      assume "dict_get out k = Some v" and "k = f"
      with shapes obtain t where "dict_get inputs f = Some t" by blast
      with None show False by simp
    qed
    have run: "embed_features tables (p # fcs) inputs = Inr out"
      using p None out by simp
    have k: "dict_keys out = filter (\<lambda>k. dict_get inputs k \<noteq> None) (dict_keys (p # fcs))"
      using keys p None by (simp add: dict_keys_def)
    have s: "\<forall>k w. dict_get out k = Some w \<longrightarrow>
                 (\<exists>t cfg. dict_get inputs k = Some t \<and> dict_get (p # fcs) k = Some cfg
                     \<and> shape w = shape t @ [dimension (table cfg)])"
    proof (intro allI impI)
      fix k w assume kw: "dict_get out k = Some w"
      with shapes obtain t c where "dict_get inputs k = Some t" "dict_get fcs k = Some c"
        "shape w = shape t @ [dimension (table c)]" by blast
      moreover from nf [OF kw] p have "dict_get (p # fcs) k = dict_get fcs k"
        by (simp add: dict_get_def)
      ultimately show "\<exists>t cfg. dict_get inputs k = Some t \<and> dict_get (p # fcs) k = Some cfg
                     \<and> shape w = shape t @ [dimension (table cfg)]" by simp
    qed
    from run k s show ?thesis by blast
  next
    case (Some t)
    from Cons.prems(1) p obtain e
      where e: "find_table tables (table cfg) = Some e" "rows e = capacity (table cfg)"
        "cols e = dimension (table cfg)"
      by auto
    from Cons.prems(2) p Some
    have "list_all (\<lambda>i. 0 \<le> i \<and> i < int (capacity (table cfg))) (data t)"
      by (simp add: valid_indices_def)
    with e have "list_all (\<lambda>i. 0 \<le> i \<and> i < int (rows e)) (data t)" by simp
    from embedding_lookup_ok [OF this] obtain v
      where v: "embedding_lookup e t = Inr v" "shape v = shape t @ [cols e]" by blast
    have run: "embed_features tables (p # fcs) inputs = Inr ((f, v) # out)"
      using p Some e v out by simp
    have k: "dict_keys ((f, v) # out)
               = filter (\<lambda>k. dict_get inputs k \<noteq> None) (dict_keys (p # fcs))"
      using keys p Some by (simp add: dict_keys_def)
    have s: "\<forall>k w. dict_get ((f, v) # out) k = Some w \<longrightarrow>
                 (\<exists>t cfg. dict_get inputs k = Some t \<and> dict_get (p # fcs) k = Some cfg
                     \<and> shape w = shape t @ [dimension (table cfg)])"
      using shapes p Some v e by (auto simp: dict_get_def)
    from run k s show ?thesis by blast
  qed
qed

section \<open>The composer \<^verbatim>\<open>TabularFeatures\<close>\<close>

text \<open>
  C1. The specification asks that a \<^verbatim>\<open>TabularFeatures\<close> built without any
  sub-module is rejected with the message about "at least one input layer". The
  constructor has the \<^verbatim>\<open>assert\<close> with this message, but its condition compares the
  identity of \<^verbatim>\<open>self.to_apply\<close> with that of a new list and is always true.
  Evaluated at \<^verbatim>\<open>TabularFeatures()\<close>, the constructor returns an instance whose
  \<^verbatim>\<open>to_apply\<close> is empty.
\<close>

theorem init_without_modules_returns:
  "TabularFeatures_init (\<lambda>m::string. True) (\<lambda>a::string option. a) None None None None 0 =
     Inr \<lparr>categorical_module = None, continuous_module = None, text_embedding_module = None,
          to_apply = \<lparr>ident = 0, items = []\<rparr>, aggregation = None\<rparr>"
  by (simp add: TabularFeatures_init_def Let_def new_list_def append_if_def py_is_not_def)

text \<open>
  C2. With all three sub-modules \<open>None\<close> the constructor returns an instance with an
  empty \<^verbatim>\<open>to_apply\<close>, whatever the aggregation; on that instance \<^verbatim>\<open>forward\<close> raises
  \<^verbatim>\<open>IndexError\<close> for every input, before any sub-module is called; and the assertion
  of the constructor fails for no combination of arguments.
\<close>

theorem guard_never_fires:
  "TabularFeatures_init truthy sa None None None agg fresh =
     Inr \<lparr>categorical_module = None, continuous_module = None, text_embedding_module = None,
          to_apply = \<lparr>ident = fresh, items = []\<rparr>, aggregation = sa agg\<rparr>
   \<and> forward call
        \<lparr>categorical_module = None, continuous_module = None, text_embedding_module = None,
          to_apply = \<lparr>ident = fresh, items = []\<rparr>, aggregation = sa agg\<rparr> inputs kwargs
      = Inl (IndexError ''list index out of range'')
   \<and> (\<forall>cont_module cat_module text_module msg.
         TabularFeatures_init truthy sa cont_module cat_module text_module agg fresh
           \<noteq> Inl (AssertionError msg))"
  by (simp add: init_total configured_def forward_def)




text \<open>
  C4. \<^verbatim>\<open>from_column_group\<close> asks \<^verbatim>\<open>ContinuousFeatures.from_column_group\<close> for the
  continuous module, with the column group, the continuous tags and their filter,
  exactly when the continuous tags are true as a condition, and likewise
  \<^verbatim>\<open>EmbeddingFeatures.from_column_group\<close> for the categorical module; a module that
  is not asked for is \<open>None\<close>. The text model is handed on as it is, the text
  selectors and the text length have no influence, and the result is the
  constructor's, with the given aggregation.
\<close>

theorem from_column_group_composes:
  assumes "tags_truth continuous_tags \<Longrightarrow>
             continuous_from_column_group column_group continuous_tags
               continuous_tags_to_filter = Inr maybe_continuous_module"
      and "tags_truth categorical_tags \<Longrightarrow>
             embedding_from_column_group column_group categorical_tags
               categorical_tags_to_filter = Inr maybe_categorical_module"
  shows "from_column_group truthy sa continuous_from_column_group embedding_from_column_group
           column_group continuous_tags continuous_tags_to_filter categorical_tags
           categorical_tags_to_filter text_model text_tags text_tags_to_filter max_text_length
           agg kwargs fresh
         = TabularFeatures_init truthy sa
             (if tags_truth continuous_tags then maybe_continuous_module else None)
             (if tags_truth categorical_tags then maybe_categorical_module else None)
             text_model agg fresh"
  using assms by (simp add: from_column_group_def)

text \<open>
  C4 at a concrete input: one continuous tag, a list of one categorical tag and a
  text model.
\<close>

theorem from_column_group_composes_witness:
  "tags_truth (OneTag ''continuous'') \<and> tags_truth (TagList [''categorical''])
   \<and> from_column_group (\<lambda>m::string. True) (\<lambda>a::string option. a)
        (\<lambda>cg tags filt. Inr (Some (''continuous of '' @ cg)))
        (\<lambda>cg tags filt. Inr (Some (''embeddings of '' @ cg)))
        ''schema'' (OneTag ''continuous'') NoTags (TagList [''categorical'']) NoTags
        (Some ''text model'') (OneTag ''text_tokenized'') NoTags None (Some ''concat'') () 0
      = Inr \<lparr>categorical_module = Some ''embeddings of schema'',
             continuous_module = Some ''continuous of schema'',
             text_embedding_module = Some ''text model'',
             to_apply = \<lparr>ident = 0, items = [''continuous of schema'',
                           ''embeddings of schema'', ''text model'']\<rparr>,
             aggregation = Some ''concat''\<rparr>"
  using from_column_group_composes [of "OneTag ''continuous''"
      "\<lambda>cg tags filt. Inr (Some (''continuous of '' @ cg))" "''schema''" NoTags
      "Some ''continuous of schema''" "TagList [''categorical'']"
      "\<lambda>cg tags filt. Inr (Some (''embeddings of '' @ cg))" NoTags
      "Some ''embeddings of schema''" "\<lambda>m::string. True" "\<lambda>a::string option. a"
      "Some ''text model''" "OneTag ''text_tokenized''" NoTags None "Some ''concat''" "()" 0]
  by (simp add: init_total configured_def)

text \<open>
  C5. When every configured sub-module answers \<^verbatim>\<open>forward_output_size\<close> with a
  dictionary, \<^verbatim>\<open>forward_output_size\<close> of the composer is the superclass's size
  transform applied to the empty dictionary updated with the answers of the
  configured sub-modules in the order continuous, categorical, text. That dictionary
  is their union: it answers for a name what \<open>union_get\<close> answers, its keys are the
  keys of all the answers, and no key occurs twice.
\<close>

theorem forward_output_size_union:
  assumes subs: "list_all (\<lambda>m. sub_size m s = Inr (sizes m) \<and> distinct (dict_keys (sizes m)))
                   (configured truthy cont_module cat_module text_module)"
      and init: "TabularFeatures_init truthy sa cont_module cat_module text_module agg fresh = Inr self"
  shows "forward_output_size sub_size super_size self s
           = super_size self (foldl dict_update [] (map sizes (configured truthy cont_module cat_module text_module)))
         \<and> (\<forall>k. dict_get (foldl dict_update [] (map sizes (configured truthy cont_module cat_module text_module))) k
                  = union_get (map sizes (configured truthy cont_module cat_module text_module)) k)
         \<and> set (dict_keys (foldl dict_update [] (map sizes (configured truthy cont_module cat_module text_module))))
             = (\<Union>m \<in> set (configured truthy cont_module cat_module text_module). set (dict_keys (sizes m)))
         \<and> distinct (dict_keys (foldl dict_update [] (map sizes (configured truthy cont_module cat_module text_module))))"
proof -
  let ?ms = "configured truthy cont_module cat_module text_module"
  from init have items: "items (to_apply self) = ?ms"
    by (auto simp: init_total)
  from subs have ok: "list_all (\<lambda>m. sub_size m s = Inr (sizes m)) ?ms"
    and dist: "list_all (\<lambda>d. distinct (dict_keys d)) (map sizes ?ms)"
    by (simp_all add: list_all_iff)
  have 1: "forward_output_size sub_size super_size self s
             = super_size self (foldl dict_update [] (map sizes ?ms))"
    by (simp add: forward_output_size_def items update_sizes_ok [of sub_size s sizes, OF ok])
  have 2: "dict_get (foldl dict_update [] (map sizes ?ms)) k = union_get (map sizes ?ms) k" for k
    using dict_get_foldl_update [OF dist, of "[]" k]
    by (simp add: dict_get_def split: option.splits)
  have 3: "set (dict_keys (foldl dict_update [] (map sizes ?ms)))
             = (\<Union>m \<in> set ?ms. set (dict_keys (sizes m)))"
    using set_keys_foldl_update [of "[]" "map sizes ?ms"] by (simp add: dict_keys_def)
  have 4: "distinct (dict_keys (foldl dict_update [] (map sizes ?ms)))"
    by (rule distinct_foldl_update) (simp add: dict_keys_def)
  from 1 2 3 4 show ?thesis by blast
qed

text \<open>
  C5 at a concrete input: a continuous module reporting one size and a categorical
  module reporting two.
\<close>

theorem forward_output_size_union_witness:
  "list_all (\<lambda>m. (\<lambda>m s. Inr (if m = ''cont'' then [(''price'', [1::nat])]
                              else [(''item'', [64]), (''category'', [64])])) m ''sizes''
                  = (Inr (if m = ''cont'' then [(''price'', [1::nat])]
                              else [(''item'', [64]), (''category'', [64])]) :: error + (string, nat list) dict)
                \<and> distinct (dict_keys (if m = ''cont'' then [(''price'', [1::nat])]
                              else [(''item'', [64]), (''category'', [64])])))
     (configured (\<lambda>m::string. True) (Some ''cont'') (Some ''cat'') None)
   \<and> forward_output_size
        (\<lambda>m s. Inr (if m = ''cont'' then [(''price'', [1::nat])]
                              else [(''item'', [64]), (''category'', [64])]))
        (\<lambda>self sizes. Inr (aggregation self, sizes))
        \<lparr>categorical_module = Some ''cat'', continuous_module = Some ''cont'',
          text_embedding_module = None,
          to_apply = \<lparr>ident = 0, items = [''cont'', ''cat'']\<rparr>, aggregation = ()\<rparr> ''sizes''
      = (Inr ((), [(''price'', [1]), (''item'', [64]), (''category'', [64])])
          :: error + unit \<times> (string, nat list) dict)"
proof -
  let ?sz = "\<lambda>m. if m = ''cont'' then [(''price'', [1::nat])]
                              else [(''item'', [64]), (''category'', [64])]"
  let ?sub = "\<lambda>m (s::string). Inr (?sz m) :: error + (string, nat list) dict"
  let ?self = "\<lparr>categorical_module = Some ''cat'', continuous_module = Some ''cont'',
          text_embedding_module = None,
          to_apply = \<lparr>ident = 0, items = [''cont'', ''cat'']\<rparr>, aggregation = ()\<rparr>"
  have cfg: "configured (\<lambda>m::string. True) (Some ''cont'') (Some ''cat'') None = [''cont'', ''cat'']"
    by (simp add: configured_def)
  have h1: "list_all (\<lambda>m. ?sub m ''sizes'' = Inr (?sz m) \<and> distinct (dict_keys (?sz m)))
              (configured (\<lambda>m::string. True) (Some ''cont'') (Some ''cat'') None)"
    by (simp add: cfg dict_keys_def)
  have h2: "TabularFeatures_init (\<lambda>m::string. True) (\<lambda>a::unit. a) (Some ''cont'') (Some ''cat'')
              None () 0 = Inr ?self"
    by (simp add: init_total cfg)
  have "forward_output_size ?sub (\<lambda>self sizes. Inr (aggregation self, sizes)) ?self ''sizes''
          = Inr ((), foldl dict_update [] (map ?sz [''cont'', ''cat'']))"
    using h1 h2 forward_output_size_union [where sub_size = "?sub" and s = "''sizes''"
        and sizes = "?sz" and truthy = "\<lambda>m::string. True" and cont_module = "Some ''cont''"
        and cat_module = "Some ''cat''" and text_module = None and sa = "\<lambda>a::unit. a" and agg = "()"
        and fresh = 0 and self = "?self"
        and super_size = "\<lambda>self sizes. Inr (aggregation self, sizes)"]
    by (simp add: cfg)
  then show ?thesis using h1 by (simp add: dict_update_def)
qed

text \<open>
  C6. When an earlier and a later configured sub-module both report a size for the
  same feature name, and no sub-module after the later one reports the name, the
  loop of \<^verbatim>\<open>forward_output_size\<close> ends without an error and the dictionary handed to
  the superclass has the later sub-module's size for that name.
\<close>

theorem forward_output_size_collision:
  assumes subs: "list_all (\<lambda>m. sub_size m s = Inr (sizes m) \<and> distinct (dict_keys (sizes m)))
                   (configured truthy cont_module cat_module text_module)"
      and init: "TabularFeatures_init truthy sa cont_module cat_module text_module agg fresh = Inr self"
      and split: "configured truthy cont_module cat_module text_module = pre @ later # rest"
      and earlier: "earlier \<in> set pre" "dict_get (sizes earlier) k = Some v'"
      and later: "dict_get (sizes later) k = Some v"
      and rest: "list_all (\<lambda>m. dict_get (sizes m) k = None) rest"
  shows "\<exists>U. update_sizes sub_size s (items (to_apply self)) [] = Inr U
           \<and> dict_get U k = Some v
           \<and> forward_output_size sub_size super_size self s = super_size self U"
proof -
  let ?ms = "configured truthy cont_module cat_module text_module"
  let ?U = "foldl dict_update [] (map sizes ?ms)"
  from init have items: "items (to_apply self) = ?ms"
    by (auto simp: init_total)
  from subs have ok: "list_all (\<lambda>m. sub_size m s = Inr (sizes m)) ?ms"
    and dist: "list_all (\<lambda>d. distinct (dict_keys d)) (map sizes ?ms)"
    by (simp_all add: list_all_iff)
  have run: "update_sizes sub_size s (items (to_apply self)) [] = Inr ?U"
    by (simp add: items update_sizes_ok [of sub_size s sizes, OF ok])
  from rest have rest': "list_all (\<lambda>p. dict_get p k = None) (map sizes rest)"
    by (simp add: list_all_iff)
  have "union_get (map sizes ?ms) k = Some v"
    using union_get_last [OF later rest', of "map sizes pre"] by (simp add: split)
  then have val: "dict_get ?U k = Some v"
    using dict_get_foldl_update [OF dist, of "[]" k] by simp
  have "forward_output_size sub_size super_size self s = super_size self ?U"
    by (simp add: forward_output_size_def run)
  with run val show ?thesis by blast
qed

text \<open>
  C6 at a concrete input: both modules report a size for \<^verbatim>\<open>item\<close>; the categorical
  module's size replaces the continuous module's.
\<close>

theorem forward_output_size_collision_witness:
  "dict_get [(''price'', [1::nat]), (''item'', [8])] ''item'' = Some [8]
   \<and> dict_get [(''item'', [64::nat])] ''item'' = Some [64]
   \<and> (\<exists>U. update_sizes
             (\<lambda>m (s::string). Inr (if m = ''cont'' then [(''price'', [1::nat]), (''item'', [8])]
                         else [(''item'', [64])]))
             ''sizes'' [''cont'', ''cat''] [] = Inr U
          \<and> dict_get U ''item'' = Some [64]
          \<and> forward_output_size
               (\<lambda>m (s::string). Inr (if m = ''cont'' then [(''price'', [1::nat]), (''item'', [8])]
                         else [(''item'', [64])]))
               (\<lambda>self sizes. Inr sizes)
               \<lparr>categorical_module = Some ''cat'', continuous_module = Some ''cont'',
                 text_embedding_module = None,
                 to_apply = \<lparr>ident = 0, items = [''cont'', ''cat'']\<rparr>, aggregation = ()\<rparr>
               ''sizes''
             = (Inr U :: error + (string, nat list) dict))"
proof -
  let ?sz = "\<lambda>m. if m = ''cont'' then [(''price'', [1::nat]), (''item'', [8])]
                         else [(''item'', [64])]"
  let ?sub = "\<lambda>m (s::string). Inr (?sz m) :: error + (string, nat list) dict"
  let ?self = "\<lparr>categorical_module = Some ''cat'', continuous_module = Some ''cont'',
          text_embedding_module = None,
          to_apply = \<lparr>ident = 0, items = [''cont'', ''cat'']\<rparr>, aggregation = ()\<rparr>"
  have cfg: "configured (\<lambda>m::string. True) (Some ''cont'') (Some ''cat'') None
               = [''cont''] @ ''cat'' # []"
    by (simp add: configured_def)
  have h1: "list_all (\<lambda>m. ?sub m ''sizes'' = Inr (?sz m) \<and> distinct (dict_keys (?sz m)))
              (configured (\<lambda>m::string. True) (Some ''cont'') (Some ''cat'') None)"
    by (simp add: cfg dict_keys_def)
  have h2: "TabularFeatures_init (\<lambda>m::string. True) (\<lambda>a::unit. a) (Some ''cont'') (Some ''cat'')
              None () 0 = Inr ?self"
    by (simp add: init_total cfg)
  have h3: "''cont'' \<in> set [''cont'']" by simp
  have h4: "dict_get (?sz ''cont'') ''item'' = Some [8]" by (simp add: dict_get_def)
  have h5: "dict_get (?sz ''cat'') ''item'' = Some [64]" by (simp add: dict_get_def)
  have h6: "list_all (\<lambda>m. dict_get (?sz m) ''item'' = None) []" by simp
  show ?thesis
    using h1 h2 cfg h3 h4 h5 h6
      forward_output_size_collision [where sub_size = "?sub" and s = "''sizes''"
        and sizes = "?sz" and truthy = "\<lambda>m::string. True" and cont_module = "Some ''cont''"
        and cat_module = "Some ''cat''" and text_module = None and sa = "\<lambda>a::unit. a" and agg = "()"
        and fresh = 0 and self = "?self" and pre = "[''cont'']" and later = "''cat''"
        and rest = "[]" and earlier = "''cont''" and k = "''item''" and v' = "[8]"
        and v = "[64]" and super_size = "\<lambda>self sizes. Inr sizes"]
    by simp
qed

section \<open>Embedding features, table configurations and soft embeddings\<close>

text \<open>
  C7, as stated, fails at four inputs. (1) The output has no key for an input
  feature that is not configured: the configuration has \<^verbatim>\<open>item\<close>, the input has
  \<^verbatim>\<open>item\<close> and \<^verbatim>\<open>price\<close>, the output has \<^verbatim>\<open>item\<close> only. (2) Two configurations that
  share the table name \<^verbatim>\<open>shared\<close> share one table: feature \<^verbatim>\<open>b\<close> is configured with
  dimension 4 and its output has last dimension 2. (3) With the same configuration
  the index 4 of feature \<^verbatim>\<open>b\<close>, which is below the configured capacity 5, is
  outside the shared table of 3 rows, and the forward pass returns no mapping.
  (4) An index that is outside the feature's own table (5, for capacity 3) gives
  no mapping either.
\<close>

theorem embedding_features_forward_counterexample:
  "EmbeddingFeatures_forward
     (EmbeddingFeatures_init (\<lambda>f r c. (r, c))
        [(''item'', \<lparr>table = \<lparr>capacity = 3, dimension = 2, initializer = (None :: unit option),
                               combiner = None, name = Some ''item''\<rparr>,
                    max_sequence_length = None\<rparr>)]
        None None)
     [(''item'', \<lparr>shape = [2], data = [0, 2]\<rparr>), (''price'', \<lparr>shape = [2], data = [1, 1]\<rparr>)]
   = Inr [(''item'', \<lparr>shape = [2, 2], data = [(0, 0), (0, 1), (2, 0), (2, 1)]\<rparr>)]
   \<and> set (dict_keys [(''item'', \<lparr>shape = [2, 2],
                       data = [(0 :: nat, 0 :: nat), (0, 1), (2, 0), (2, 1)]\<rparr>)])
       \<noteq> set (dict_keys [(''item'', \<lparr>shape = [2 :: nat], data = [0 :: int, 2]\<rparr>),
                          (''price'', \<lparr>shape = [2], data = [1, 1]\<rparr>)])
   \<and> EmbeddingFeatures_forward
     (EmbeddingFeatures_init (\<lambda>f r c. (r, c))
        [(''a'', \<lparr>table = \<lparr>capacity = 3, dimension = 2, initializer = (None :: unit option),
                            combiner = None, name = Some ''shared''\<rparr>,
                 max_sequence_length = None\<rparr>),
         (''b'', \<lparr>table = \<lparr>capacity = 5, dimension = 4, initializer = None,
                            combiner = None, name = Some ''shared''\<rparr>,
                 max_sequence_length = None\<rparr>)]
        None None)
     [(''b'', \<lparr>shape = [1], data = [0]\<rparr>)]
   = Inr [(''b'', \<lparr>shape = [1, 2], data = [(0, 0), (0, 1)]\<rparr>)]
   \<and> EmbeddingFeatures_forward
     (EmbeddingFeatures_init (\<lambda>f r c. (r, c))
        [(''a'', \<lparr>table = \<lparr>capacity = 3, dimension = 2, initializer = (None :: unit option),
                            combiner = None, name = Some ''shared''\<rparr>,
                 max_sequence_length = None\<rparr>),
         (''b'', \<lparr>table = \<lparr>capacity = 5, dimension = 4, initializer = None,
                            combiner = None, name = Some ''shared''\<rparr>,
                 max_sequence_length = None\<rparr>)]
        None None)
     [(''b'', \<lparr>shape = [1], data = [4]\<rparr>)]
   = (Inl (IndexError ''index out of range in self'')
       :: error + (string, (nat \<times> nat) tensor) dict)
   \<and> EmbeddingFeatures_forward
     (EmbeddingFeatures_init (\<lambda>f r c. (r, c))
        [(''item'', \<lparr>table = \<lparr>capacity = 3, dimension = 2, initializer = (None :: unit option),
                               combiner = None, name = Some ''item''\<rparr>,
                    max_sequence_length = None\<rparr>)]
        None None)
     [(''item'', \<lparr>shape = [1], data = [5]\<rparr>)]
   = (Inl (IndexError ''index out of range in self'')
       :: error + (string, (nat \<times> nat) tensor) dict)"
  by (simp add: EmbeddingFeatures_forward_def EmbeddingFeatures_init_def allocate_def
      embedding_lookup_def dict_get_def dict_keys_def same_table_def upt_conv_Cons
      eval_nat_numeral)

text \<open>
  C7, amended. When the configurations that are the same table agree on capacity
  and dimension (\<open>consistent\<close>) and the indices of every configured feature lie
  within its capacity (\<open>valid_indices\<close>), the forward pass of a module built without
  \<open>post\<close> returns a mapping whose keys are the configured features that the input
  has, in the order of the configuration; they are all the keys of the input when
  every key of the input is configured. The shape of every output value is the
  shape of the feature's input tensor followed by the feature's configured
  dimension.
\<close>

theorem embedding_features_forward:
  assumes cons: "consistent feature_config"
      and valid: "valid_indices feature_config inputs"
  shows "\<exists>out. EmbeddingFeatures_forward
                 (EmbeddingFeatures_init fill feature_config item None) inputs = Inr out
           \<and> dict_keys out
               = filter (\<lambda>k. k \<in> set (dict_keys inputs)) (dict_keys feature_config)
           \<and> (set (dict_keys inputs) \<subseteq> set (dict_keys feature_config)
                \<longrightarrow> set (dict_keys out) = set (dict_keys inputs))
           \<and> (\<forall>k v. dict_get out k = Some v \<longrightarrow>
                 (\<exists>t cfg. dict_get inputs k = Some t \<and> dict_get feature_config k = Some cfg
                     \<and> shape v = shape t @ [dimension (table cfg)]))"
proof -
  let ?tables = "allocate_tables fill (map snd feature_config) []"
  have tabs: "\<forall>(f, cfg) \<in> set feature_config. \<exists>e. find_table ?tables (table cfg) = Some e
              \<and> rows e = capacity (table cfg) \<and> cols e = dimension (table cfg)"
    using registered_table [OF cons] by blast
  from embed_features_ok [OF tabs valid] obtain out
    where out: "embed_features ?tables feature_config inputs = Inr out"
      and keys: "dict_keys out
                   = filter (\<lambda>k. dict_get inputs k \<noteq> None) (dict_keys feature_config)"
      and shapes: "\<forall>k v. dict_get out k = Some v \<longrightarrow>
                 (\<exists>t cfg. dict_get inputs k = Some t \<and> dict_get feature_config k = Some cfg
                     \<and> shape v = shape t @ [dimension (table cfg)])"
    by blast
  have run: "EmbeddingFeatures_forward
               (EmbeddingFeatures_init fill feature_config item None) inputs = Inr out"
    by (simp add: EmbeddingFeatures_forward_def EmbeddingFeatures_init_def out)
  have keys': "dict_keys out
                 = filter (\<lambda>k. k \<in> set (dict_keys inputs)) (dict_keys feature_config)"
    using keys by (simp only: dict_get_None_iff)
  have sub: "set (dict_keys inputs) \<subseteq> set (dict_keys feature_config)
               \<longrightarrow> set (dict_keys out) = set (dict_keys inputs)"
    using keys' by auto
  from run keys' sub shapes show ?thesis by blast
qed

text \<open>
  C7, amended, at a concrete input: two tables of capacity 100 and dimension 15, as
  in \<^verbatim>\<open>test_embedding_features\<close>, and an input that lists the features in another
  order.
\<close>

theorem embedding_features_forward_witness:
  "consistent
     [(''item'', \<lparr>table = \<lparr>capacity = 100, dimension = 15, initializer = (None :: unit option),
                            combiner = None, name = Some ''item''\<rparr>,
                 max_sequence_length = None\<rparr>),
      (''category'', \<lparr>table = \<lparr>capacity = 100, dimension = 15, initializer = None,
                            combiner = None, name = Some ''category''\<rparr>,
                 max_sequence_length = None\<rparr>)]
   \<and> valid_indices
     [(''item'', \<lparr>table = \<lparr>capacity = 100, dimension = 15, initializer = (None :: unit option),
                            combiner = None, name = Some ''item''\<rparr>,
                 max_sequence_length = None\<rparr>),
      (''category'', \<lparr>table = \<lparr>capacity = 100, dimension = 15, initializer = None,
                            combiner = None, name = Some ''category''\<rparr>,
                 max_sequence_length = None\<rparr>)]
     [(''category'', \<lparr>shape = [2], data = [7, 99]\<rparr>), (''item'', \<lparr>shape = [2], data = [0, 42]\<rparr>)]
   \<and> (\<exists>out. EmbeddingFeatures_forward
         (EmbeddingFeatures_init (\<lambda>f r c. (r, c))
           [(''item'', \<lparr>table = \<lparr>capacity = 100, dimension = 15,
                                  initializer = (None :: unit option),
                                  combiner = None, name = Some ''item''\<rparr>,
                       max_sequence_length = None\<rparr>),
            (''category'', \<lparr>table = \<lparr>capacity = 100, dimension = 15, initializer = None,
                                  combiner = None, name = Some ''category''\<rparr>,
                       max_sequence_length = None\<rparr>)]
           None None)
         [(''category'', \<lparr>shape = [2], data = [7, 99]\<rparr>),
          (''item'', \<lparr>shape = [2], data = [0, 42]\<rparr>)]
        = (Inr out :: error + (string, (nat \<times> nat) tensor) dict)
      \<and> dict_keys out = [''item'', ''category'']
      \<and> set (dict_keys out) = {''category'', ''item''}
      \<and> (\<forall>k v. dict_get out k = Some v \<longrightarrow> shape v = [2, 15]))"
proof -
  let ?fc = "[(''item'', \<lparr>table = \<lparr>capacity = 100, dimension = 15,
                                  initializer = (None :: unit option),
                                  combiner = None, name = Some ''item''\<rparr>,
                       max_sequence_length = None\<rparr>),
            (''category'', \<lparr>table = \<lparr>capacity = 100, dimension = 15, initializer = None,
                                  combiner = None, name = Some ''category''\<rparr>,
                       max_sequence_length = None\<rparr>)]"
  let ?in = "[(''category'', \<lparr>shape = [2 :: nat], data = [7 :: int, 99]\<rparr>),
          (''item'', \<lparr>shape = [2], data = [0, 42]\<rparr>)]"
  have h1: "consistent ?fc"
    by (simp add: consistent_def same_table_def)
  have h2: "valid_indices ?fc ?in"
    by (simp add: valid_indices_def dict_get_def)
  from embedding_features_forward [OF h1 h2, of "\<lambda>f r c. (r, c)" None]
  obtain out :: "(string, (nat \<times> nat) tensor) dict" where
    run: "EmbeddingFeatures_forward (EmbeddingFeatures_init (\<lambda>f r c. (r, c)) ?fc None None) ?in
            = Inr out"
    and keys: "dict_keys out = filter (\<lambda>k. k \<in> set (dict_keys ?in)) (dict_keys ?fc)"
    and shapes: "\<forall>k v. dict_get out k = Some v \<longrightarrow>
                 (\<exists>t cfg. dict_get ?in k = Some t \<and> dict_get ?fc k = Some cfg
                     \<and> shape v = shape t @ [dimension (table cfg)])"
    by blast
  from keys have k1: "dict_keys out = [''item'', ''category'']"
    by (simp add: dict_keys_def)
  then have k2: "set (dict_keys out) = {''category'', ''item''}" by auto
  have k3: "\<forall>k v. dict_get out k = Some v \<longrightarrow> shape v = [2, 15]"
  proof (intro allI impI)
    fix k v assume "dict_get out k = Some v"
    with shapes obtain t cfg where "dict_get ?in k = Some t" "dict_get ?fc k = Some cfg"
      "shape v = shape t @ [dimension (table cfg)]" by blast
    then show "shape v = [2, 15]"
      by (auto simp: dict_get_def split: if_splits)
  qed
  from h1 h2 run k1 k2 k3 show ?thesis by blast
qed

text \<open>
  C9. Whatever the capacity and the dimension, the constructor of \<^verbatim>\<open>TableConfig\<close>
  fails with a \<^verbatim>\<open>ValueError\<close> whose message contains "initializer must be callable if
  specified" when the initializer is supplied and is not callable, and returns the
  configuration when the initializer is callable or is left out.
\<close>

theorem table_config_initializer:
  "(\<exists>msg. TableConfig_init vocabulary_size dim (NotCallable x) comb nm
            = (Inl (ValueError msg) :: error + 'f table_config)
          \<and> str_contains ''initializer must be callable if specified'' msg)
   \<and> TableConfig_init vocabulary_size dim (Callable f :: ('f, 'x) initializer_arg) comb nm
       = Inr \<lparr>capacity = vocabulary_size, dimension = dim, initializer = Some f,
              combiner = comb, name = nm\<rparr>
   \<and> TableConfig_init vocabulary_size dim (Unspecified :: ('f, 'x) initializer_arg) comb nm
       = Inr \<lparr>capacity = vocabulary_size, dimension = dim, initializer = None,
              combiner = comb, name = nm\<rparr>"
  by (simp add: TableConfig_init_def)

text \<open>
  C10, as stated, fails when both sizes are not positive: at (0, 0) the constructor
  fails with the message about the number of embeddings, which does not name the
  dimension.
\<close>

theorem soft_embedding_sizes_counterexample:
  "SoftEmbedding_init (\<lambda>r c. (r, c)) 0 0
     = (Inl (AssertionError
          ''number of embeddings for soft embeddings needs to be greater than 0'')
         :: error + (nat \<times> nat) soft_embedding)
   \<and> \<not> str_contains ''embeddings dim for soft embeddings needs to be greater than 0''
         ''number of embeddings for soft embeddings needs to be greater than 0''
   \<and> \<not> str_contains ''embeddings dim''
         ''number of embeddings for soft embeddings needs to be greater than 0''"
  by (simp add: SoftEmbedding_init_def)

text \<open>
  C10, amended. The constructor of \<^verbatim>\<open>SoftEmbedding\<close> fails with an \<^verbatim>\<open>AssertionError\<close>
  about the number of embeddings when \<^verbatim>\<open>num_embeddings\<close> is not positive; it fails
  with an \<^verbatim>\<open>AssertionError\<close> whose message contains "greater than 0" when
  \<^verbatim>\<open>embeddings_dim\<close> is not positive, and that message is the one about the
  embeddings dimension when \<^verbatim>\<open>num_embeddings\<close> is positive; it returns a table of
  \<^verbatim>\<open>num_embeddings\<close> rows and \<^verbatim>\<open>embeddings_dim\<close> columns when both are positive.
\<close>

theorem soft_embedding_sizes:
  "(num_embeddings \<le> 0 \<longrightarrow>
      (\<exists>msg. SoftEmbedding_init emb_initializer num_embeddings embeddings_dim
                = Inl (AssertionError msg)
             \<and> str_contains
                 ''number of embeddings for soft embeddings needs to be greater than 0'' msg))
   \<and> (embeddings_dim \<le> 0 \<longrightarrow>
      (\<exists>msg. SoftEmbedding_init emb_initializer num_embeddings embeddings_dim
                = Inl (AssertionError msg)
             \<and> str_contains ''greater than 0'' msg
             \<and> (0 < num_embeddings \<longrightarrow>
                  str_contains ''embeddings dim for soft embeddings needs to be greater than 0''
                    msg)))
   \<and> (0 < num_embeddings \<and> 0 < embeddings_dim \<longrightarrow>
      (\<exists>se. SoftEmbedding_init emb_initializer num_embeddings embeddings_dim = Inr se
            \<and> int (rows (embedding_table se)) = num_embeddings
            \<and> int (cols (embedding_table se)) = embeddings_dim
            \<and> length (weight (embedding_table se)) = rows (embedding_table se)
            \<and> list_all (\<lambda>row. length row = cols (embedding_table se))
                 (weight (embedding_table se))))"
  by (simp add: SoftEmbedding_init_def allocate_def list_all_iff)

text \<open>
  C10, amended, at the inputs of the tests: (0, 16), (10, 0) and (64, 16).
\<close>

theorem soft_embedding_sizes_witness:
  "(0 :: int) \<le> 0
   \<and> (\<exists>msg. SoftEmbedding_init (\<lambda>r c. (r, c)) 0 16 = Inl (AssertionError msg)
          \<and> str_contains
               ''number of embeddings for soft embeddings needs to be greater than 0'' msg)
   \<and> (\<exists>msg. SoftEmbedding_init (\<lambda>r c. (r, c)) 10 0 = Inl (AssertionError msg)
          \<and> str_contains
               ''embeddings dim for soft embeddings needs to be greater than 0'' msg)
   \<and> (0 :: int) < 64 \<and> (0 :: int) < 16
   \<and> (\<exists>se. SoftEmbedding_init (\<lambda>r c. (r, c)) 64 16 = Inr se
          \<and> rows (embedding_table se) = 64 \<and> cols (embedding_table se) = 16)"
proof -
  have a: "\<exists>msg. SoftEmbedding_init (\<lambda>r c. (r, c)) 0 16 = Inl (AssertionError msg)
          \<and> str_contains
               ''number of embeddings for soft embeddings needs to be greater than 0'' msg"
    using soft_embedding_sizes [of 0 "\<lambda>r c. (r, c)" 16] by simp
  have b: "\<exists>msg. SoftEmbedding_init (\<lambda>r c. (r, c)) 10 0 = Inl (AssertionError msg)
          \<and> str_contains
               ''embeddings dim for soft embeddings needs to be greater than 0'' msg"
    using soft_embedding_sizes [of 10 "\<lambda>r c. (r, c)" 0] by auto
  have c: "\<exists>se. SoftEmbedding_init (\<lambda>r c. (r, c)) 64 16 = Inr se
          \<and> rows (embedding_table se) = 64 \<and> cols (embedding_table se) = 16"
    using soft_embedding_sizes [of 64 "\<lambda>r c. (r, c)" 16] by auto
  from a b c show ?thesis by simp
qed

end
